theory Spec2Isabelle
  imports Complex_Main
begin

section \<open>Crash predictor: under-count strategy over the last 20 rounds\<close>

text \<open>
  A shallow embedding of \<^verbatim>\<open>app.py\<close>. Multipliers and balances are Python floats, that
  is IEEE 754 binary64 numbers with round-to-nearest, ties-to-even arithmetic; they are
  modelled with their rounding, infinities and NaN. The four persisted files are the
  fields of a record, \<open>None\<close> standing for a file that does not exist; a file that exists
  holds the typed value the program wrote to it (the conversion to and from the text of
  the file is not modelled).
\<close>

subsection \<open>Python floats\<close>

text \<open>
  A float is NaN, an infinity, or finite with its exact value. Every double is a value
  of this type; the sign of zero, which no operation of the program observes, is left
  out.
\<close>

datatype pyfloat = Finite real | PInf | NInf | NaN

definition pow2 :: "int \<Rightarrow> real" where
  "pow2 e = (if 0 \<le> e then 2 ^ nat e else 1 / 2 ^ nat (- e))"

text \<open>
  The binary exponent of a positive \<open>x\<close>: the \<open>e\<close> with \<open>2^e \<le> x < 2^(e+1)\<close>, found by
  halving or doubling from \<open>e = 0\<close>, and kept within \<open>-1022\<close> (below it the doubles are
  subnormal, with the spacing of exponent \<open>-1022\<close>) and \<open>1024\<close> (overflow).
\<close>

function exp_up :: "real \<Rightarrow> int \<Rightarrow> int" where
  "exp_up x e = (if x < 2 \<or> 1024 \<le> e then e else exp_up (x / 2) (e + 1))"
  by pat_completeness auto
termination
  by (relation "measure (\<lambda>(x, e). nat (1024 - e))") auto

function exp_down :: "real \<Rightarrow> int \<Rightarrow> int" where
  "exp_down x e = (if 1 \<le> x \<or> e \<le> - 1022 then e else exp_down (2 * x) (e - 1))"
  by pat_completeness auto
termination
  by (relation "measure (\<lambda>(x, e). nat (e + 1022))") auto

declare exp_up.simps [simp del] exp_down.simps [simp del]

definition binade :: "real \<Rightarrow> int" where
  "binade x = (if 1 \<le> x then exp_up x 0 else exp_down x 0)"

definition round_half_even :: "real \<Rightarrow> int" where
  "round_half_even y =
     (let n = \<lfloor>y\<rfloor>; d = y - of_int n
      in if d < 1 / 2 then n else if 1 / 2 < d then n + 1 else if even n then n else n + 1)"

text \<open>
  The double nearest to a real, ties to even: the real is rounded to a multiple of the
  spacing \<open>2^(e-52)\<close> of its binade, and a result of \<open>2^1024\<close> or more is an infinity. This
  is the value of a decimal literal and the rounding of every arithmetic result.
\<close>

definition double_of :: "real \<Rightarrow> pyfloat" where
  "double_of x =
     (if x = 0 then Finite 0
      else let q = pow2 (binade \<bar>x\<bar> - 52);
               y = of_int (round_half_even (\<bar>x\<bar> / q)) * q
           in if pow2 1024 \<le> y then (if 0 < x then PInf else NInf)
              else Finite (if 0 < x then y else - y))"

text \<open>Comparisons: every comparison with NaN is false.\<close>

fun float_lt :: "pyfloat \<Rightarrow> pyfloat \<Rightarrow> bool" where
  "float_lt NaN _ = False"
| "float_lt _ NaN = False"
| "float_lt PInf _ = False"
| "float_lt _ NInf = False"
| "float_lt NInf _ = True"
| "float_lt _ PInf = True"
| "float_lt (Finite a) (Finite b) = (a < b)"

fun float_le :: "pyfloat \<Rightarrow> pyfloat \<Rightarrow> bool" where
  "float_le NaN _ = False"
| "float_le _ NaN = False"
| "float_le NInf _ = True"
| "float_le _ PInf = True"
| "float_le PInf _ = False"
| "float_le _ NInf = False"
| "float_le (Finite a) (Finite b) = (a \<le> b)"

definition float_gt :: "pyfloat \<Rightarrow> pyfloat \<Rightarrow> bool" where
  "float_gt x y = float_lt y x"

fun float_neg :: "pyfloat \<Rightarrow> pyfloat" where
  "float_neg NaN = NaN"
| "float_neg PInf = NInf"
| "float_neg NInf = PInf"
| "float_neg (Finite a) = Finite (- a)"

fun float_add :: "pyfloat \<Rightarrow> pyfloat \<Rightarrow> pyfloat" where
  "float_add NaN _ = NaN"
| "float_add _ NaN = NaN"
| "float_add PInf NInf = NaN"
| "float_add NInf PInf = NaN"
| "float_add PInf _ = PInf"
| "float_add _ PInf = PInf"
| "float_add NInf _ = NInf"
| "float_add _ NInf = NInf"
| "float_add (Finite a) (Finite b) = double_of (a + b)"

text \<open>
  True division. Python raises \<^verbatim>\<open>ZeroDivisionError\<close> on a zero divisor; the only divisor
  in the program is the constant 100, so that case, given NaN here, is never reached.
\<close>

fun float_div :: "pyfloat \<Rightarrow> pyfloat \<Rightarrow> pyfloat" where
  "float_div NaN _ = NaN"
| "float_div _ NaN = NaN"
| "float_div (Finite a) (Finite b) = (if b = 0 then NaN else double_of (a / b))"
| "float_div (Finite a) _ = Finite 0"
| "float_div PInf (Finite b) = (if b = 0 then NaN else if 0 < b then PInf else NInf)"
| "float_div NInf (Finite b) = (if b = 0 then NaN else if 0 < b then NInf else PInf)"
| "float_div _ _ = NaN"

subsection \<open>Constants\<close>

text \<open>
  The literals \<^verbatim>\<open>0.1\<close>, \<^verbatim>\<open>0.01\<close> and \<^verbatim>\<open>0.02\<close> are the doubles nearest to them. The
  literal \<^verbatim>\<open>2.0\<close> and the integers 10 and 100 are doubles themselves, written \<open>Finite 2\<close>,
  \<open>Finite 10\<close> and \<open>Finite 100\<close> below.
\<close>

definition INITIAL_BALANCE :: pyfloat where
  "INITIAL_BALANCE = double_of 0.1"

definition FLAT_BET :: pyfloat where
  "FLAT_BET = double_of 0.01"

definition FIXED_BET :: pyfloat where
  "FIXED_BET = double_of 0.02"

definition WINDOW :: int where
  "WINDOW = 20"

definition MIN_UNDERS_FOR_ABOVE :: int where
  "MIN_UNDERS_FOR_ABOVE = 14"

subsection \<open>Persisted files\<close>

text \<open>One row of \<^verbatim>\<open>results.csv\<close>: the columns \<^verbatim>\<open>prediction, actual, correct\<close>.\<close>

record result_row =
  prediction :: string
  actual :: pyfloat
  correct :: bool

text \<open>
  \<open>HISTORY_FILE\<close> holds the column \<^verbatim>\<open>multiplier\<close> of \<^verbatim>\<open>history.csv\<close>, \<open>RESULTS_FILE\<close> the
  rows of \<^verbatim>\<open>results.csv\<close>, \<open>FLAT_FILE\<close> and \<open>FIXED_FILE\<close> the number written to
  \<^verbatim>\<open>sol_balance.txt\<close> and \<^verbatim>\<open>fixed_balance.txt\<close>.
\<close>

record files =
  HISTORY_FILE :: "pyfloat list option"
  RESULTS_FILE :: "result_row list option"
  FLAT_FILE :: "pyfloat option"
  FIXED_FILE :: "pyfloat option"

datatype error = IndexError | ZeroDivisionError

text \<open>A data frame read from an uploaded CSV: its named columns, in order.\<close>

type_synonym data_frame = "(string \<times> pyfloat list) list"

subsection \<open>Data helpers\<close>

text \<open>
  \<^verbatim>\<open>load_csv\<close>, on the frame \<^verbatim>\<open>pd.read_csv\<close> returns for the file: the column \<^verbatim>\<open>multiplier\<close>
  when the frame has one, else the first column (\<^verbatim>\<open>df.iloc[:,0]\<close>, which raises on a frame
  with no column).
\<close>

definition load_csv :: "data_frame \<Rightarrow> error + pyfloat list" where
  "load_csv df =
     (case map_of df ''multiplier'' of
        Some col \<Rightarrow> Inr col
      | None \<Rightarrow> (case df of [] \<Rightarrow> Inl IndexError | c # _ \<Rightarrow> Inr (snd c)))"

definition load_history :: "files \<Rightarrow> pyfloat list" where
  "load_history fs = (case HISTORY_FILE fs of Some col \<Rightarrow> col | None \<Rightarrow> [])"

definition save_history :: "pyfloat list \<Rightarrow> files \<Rightarrow> files" where
  "save_history data fs = fs\<lparr>HISTORY_FILE := Some data\<rparr>"

definition load_results :: "files \<Rightarrow> result_row list" where
  "load_results fs = (case RESULTS_FILE fs of Some rows \<Rightarrow> rows | None \<Rightarrow> [])"

subsection \<open>Balance handlers\<close>

definition get_flat_balance :: "files \<Rightarrow> pyfloat" where
  "get_flat_balance fs = (case FLAT_FILE fs of Some b \<Rightarrow> b | None \<Rightarrow> INITIAL_BALANCE)"

definition get_fixed_balance :: "files \<Rightarrow> pyfloat" where
  "get_fixed_balance fs = (case FIXED_FILE fs of Some b \<Rightarrow> b | None \<Rightarrow> INITIAL_BALANCE)"

definition update_flat_balance :: "string \<Rightarrow> pyfloat \<Rightarrow> files \<Rightarrow> files" where
  "update_flat_balance p a fs =
     (let balance = get_flat_balance fs in
      if p = ''Above''
      then fs\<lparr>FLAT_FILE :=
                Some (float_add balance
                        (if float_gt a (Finite 2) then FLAT_BET else float_neg FLAT_BET))\<rparr>
      else fs)"

definition update_fixed_balance :: "pyfloat \<Rightarrow> files \<Rightarrow> files" where
  "update_fixed_balance a fs =
     (let balance = get_fixed_balance fs in
      fs\<lparr>FIXED_FILE :=
           Some (float_add balance
                   (if float_gt a (Finite 2) then FIXED_BET else float_neg FIXED_BET))\<rparr>)"

text \<open>
  \<^verbatim>\<open>save_result\<close>: the row is appended at index \<^verbatim>\<open>len(result_df)\<close> of the loaded frame and
  the frame written back; then the flat balance, and for \<^verbatim>\<open>"Above"\<close> the fixed balance.
\<close>

definition save_result :: "string \<Rightarrow> pyfloat \<Rightarrow> files \<Rightarrow> files" where
  "save_result p a fs =
     (let c = ((p = ''Above'' \<and> float_gt a (Finite 2))
               \<or> (p = ''Under'' \<and> float_le a (Finite 2)));
          result_df = load_results fs;
          fs1 = fs\<lparr>RESULTS_FILE :=
                  Some (result_df @ [\<lparr>prediction = p, actual = a, correct = c\<rparr>])\<rparr>;
          fs2 = update_flat_balance p a fs1
      in if p = ''Above'' then update_fixed_balance a fs2 else fs2)"

text \<open>\<^verbatim>\<open>reset_balance\<close> removes each of the three files that exists.\<close>

definition reset_balance :: "files \<Rightarrow> files" where
  "reset_balance fs = fs\<lparr>FLAT_FILE := None, FIXED_FILE := None, RESULTS_FILE := None\<rparr>"

subsection \<open>Logic\<close>

definition normalize_input :: "pyfloat \<Rightarrow> pyfloat" where
  "normalize_input v = (if float_gt v (Finite 10) then float_div v (Finite 100) else v)"

text \<open>
  The Python slice \<^verbatim>\<open>data[-window:]\<close>: a negative start counts from the end and is clipped
  at 0, a start that is not negative (so \<^verbatim>\<open>window <= 0\<close>) is clipped at the length.
\<close>

definition slice_last :: "'a list \<Rightarrow> int \<Rightarrow> 'a list" where
  "slice_last data window =
     (let n = int (length data);
          start = - window;
          start' = (if start < 0 then max (n + start) 0 else min start n)
      in drop (nat start') data)"

text \<open>\<^verbatim>\<open>int(np.sum(recent < threshold))\<close>: the sum of the comparison's booleans.\<close>

definition np_sum_lt :: "pyfloat list \<Rightarrow> pyfloat \<Rightarrow> int" where
  "np_sum_lt recent threshold =
     sum_list (map (\<lambda>x. if float_lt x threshold then 1 else 0) recent)"

definition predict_from_unders ::
  "pyfloat list \<Rightarrow> pyfloat \<Rightarrow> int \<Rightarrow> int \<Rightarrow> string option \<times> int option" where
  "predict_from_unders data threshold window min_unders_for_above =
     (if int (length data) < window then (None, None)
      else let recent = slice_last data window;
               under_count = np_sum_lt recent threshold
           in if under_count \<ge> min_unders_for_above
              then (Some ''Above'', Some under_count)
              else (Some ''Under'', Some under_count))"

subsection \<open>The page: session state and one run of \<^verbatim>\<open>main\<close>\<close>

text \<open>
  \<^verbatim>\<open>st.session_state\<close>: the keys \<^verbatim>\<open>history\<close> and \<^verbatim>\<open>last_prediction\<close>, \<open>None\<close> for a key
  that is not in the session.
\<close>

record session =
  history :: "pyfloat list option"
  last_prediction :: "string option"

text \<open>
  What the widgets return in one run: the slider, the uploaded frame, the two buttons,
  and \<^verbatim>\<open>float(new_val)\<close> of the text field (\<open>None\<close> when the conversion raises; the
  conversion accepts \<^verbatim>\<open>nan\<close> and \<^verbatim>\<open>inf\<close>).
\<close>

record inputs =
  min_unders :: int
  uploaded :: "data_frame option"
  reset_clicked :: bool
  new_val :: "pyfloat option"
  add_clicked :: bool

type_synonym state = "session \<times> files"

text \<open>Lines 105-106: the history is loaded into a session that has none.\<close>

definition init_history :: "state \<Rightarrow> state" where
  "init_history st =
     (case history (fst st) of
        None \<Rightarrow> ((fst st)\<lparr>history := Some (load_history (snd st))\<rparr>, snd st)
      | Some _ \<Rightarrow> st)"

text \<open>Lines 111-114: an uploaded frame replaces the history.\<close>

definition upload_history :: "data_frame \<Rightarrow> state \<Rightarrow> error + state" where
  "upload_history df st =
     (case load_csv df of
        Inl e \<Rightarrow> Inl e
      | Inr h \<Rightarrow> Inr ((fst st)\<lparr>history := Some h\<rparr>, save_history h (snd st)))"

text \<open>Lines 117-123: the button "Reset all (balances & results)".\<close>

definition reset_all :: "state \<Rightarrow> state" where
  "reset_all st =
     ((fst st)\<lparr>history := Some []\<rparr>,
      (reset_balance (save_history [] (snd st)))\<lparr>HISTORY_FILE := None\<rparr>)"

text \<open>
  Lines 127-138: the button "Add multiplier". The \<^verbatim>\<open>try\<close> block stops at the first
  exception and keeps what was done before it.
\<close>

definition add_multiplier :: "pyfloat option \<Rightarrow> state \<Rightarrow> state" where
  "add_multiplier nv st =
     (case nv of
        None \<Rightarrow> st
      | Some v \<Rightarrow>
          let val = normalize_input v;
              st1 = (case last_prediction (fst st) of
                       Some p \<Rightarrow> ((fst st)\<lparr>last_prediction := None\<rparr>, save_result p val (snd st))
                     | None \<Rightarrow> st)
          in (case history (fst st1) of
                None \<Rightarrow> st1
              | Some h \<Rightarrow> ((fst st1)\<lparr>history := Some (h @ [val])\<rparr>,
                           save_history (h @ [val]) (snd st1))))"

text \<open>
  Lines 140-150: a non-empty history is given to the predictor, and a prediction that is
  truthy is stored in the session.
\<close>

definition show_prediction :: "int \<Rightarrow> session \<Rightarrow> session" where
  "show_prediction m s =
     (case history s of
        None \<Rightarrow> s
      | Some data \<Rightarrow>
          if data \<noteq> [] then
            (case fst (predict_from_unders data (Finite 2) WINDOW m) of
               Some p \<Rightarrow> if p \<noteq> [] then s\<lparr>last_prediction := Some p\<rparr> else s
             | None \<Rightarrow> s)
          else s)"

definition main :: "inputs \<Rightarrow> state \<Rightarrow> error + state" where
  "main inp st =
     (let st1 = init_history st in
      case (case uploaded inp of Some df \<Rightarrow> upload_history df st1 | None \<Rightarrow> Inr st1) of
        Inl e \<Rightarrow> Inl e
      | Inr st2 \<Rightarrow>
          let st3 = (if reset_clicked inp then reset_all st2 else st2);
              st4 = (if add_clicked inp then add_multiplier (new_val inp) st3 else st3)
          in Inr (show_prediction (min_unders inp) (fst st4), snd st4))"

text \<open>Successive runs of the page, stopping at an exception that leaves \<^verbatim>\<open>main\<close>.\<close>

fun run :: "inputs list \<Rightarrow> state \<Rightarrow> error + state" where
  "run [] st = Inr st"
| "run (inp # inps) st = (case main inp st of Inl e \<Rightarrow> Inl e | Inr st' \<Rightarrow> run inps st')"

text \<open>A new session on a machine with no persisted file.\<close>

definition initial_state :: state where
  "initial_state =
     (\<lparr>history = None, last_prediction = None\<rparr>,
      \<lparr>HISTORY_FILE = None, RESULTS_FILE = None, FLAT_FILE = None, FIXED_FILE = None\<rparr>)"

text \<open>The user types \<open>v\<close> and presses "Add multiplier"; the user presses "Reset all".\<close>

definition add_input :: "pyfloat \<Rightarrow> inputs" where
  "add_input v =
     \<lparr>min_unders = MIN_UNDERS_FOR_ABOVE, uploaded = None, reset_clicked = False,
      new_val = Some v, add_clicked = True\<rparr>"

definition reset_input :: inputs where
  "reset_input =
     \<lparr>min_unders = MIN_UNDERS_FOR_ABOVE, uploaded = None, reset_clicked = True,
      new_val = None, add_clicked = False\<rparr>"

subsection \<open>Accuracy tracker\<close>

definition py_truediv :: "real \<Rightarrow> real \<Rightarrow> error + real" where
  "py_truediv a b = (if b = 0 then Inl ZeroDivisionError else Inr (a / b))"

text \<open>\<^verbatim>\<open>int(results_df['correct'].sum())\<close>: the sum of the column's booleans.\<close>

definition correct_sum :: "result_row list \<Rightarrow> int" where
  "correct_sum results_df = sum_list (map (\<lambda>r. if correct r then 1 else 0) results_df)"

text \<open>
  Lines 158-160: \<^verbatim>\<open>total\<close>, \<^verbatim>\<open>correct\<close> and \<^verbatim>\<open>acc = correct / total if total else 0\<close>. The
  quotient of the two integers is kept exact; Python's float is the double nearest to it.
\<close>

definition accuracy :: "result_row list \<Rightarrow> error + (int \<times> int \<times> real)" where
  "accuracy results_df =
     (let total = int (length results_df);
          n_correct = correct_sum results_df
      in if total \<noteq> 0
         then (case py_truediv (real_of_int n_correct) (real_of_int total) of
                 Inl e \<Rightarrow> Inl e
               | Inr acc \<Rightarrow> Inr (total, n_correct, acc))
         else Inr (total, n_correct, 0))"

text \<open>Lines 156-166: the metrics are shown for a ledger that is not empty.\<close>

definition accuracy_tracker :: "files \<Rightarrow> (error + (int \<times> int \<times> real)) option" where
  "accuracy_tracker fs =
     (let results_df = load_results fs in
      if results_df \<noteq> [] then Some (accuracy results_df) else None)"

subsection \<open>The pending prediction and the window\<close>

text \<open>
  A session is consistent when a stored prediction comes with a history of at least 20
  entries, the only histories the predictor gives a label for.
\<close>

definition pending_ok :: "session \<Rightarrow> bool" where
  "pending_ok s =
     (case last_prediction s of
        None \<Rightarrow> True
      | Some _ \<Rightarrow> (case history s of None \<Rightarrow> False | Some h \<Rightarrow> 20 \<le> length h))"

section \<open>Properties\<close>

subsection \<open>Evaluating doubles\<close>

lemmas double_eval = double_of_def binade_def exp_up.simps exp_down.simps pow2_def
  round_half_even_def Let_def

lemma double_of_not_NaN: "double_of x \<noteq> NaN"
  by (simp add: double_of_def Let_def)

text \<open>The literals of the program and of the examples, with their exact values.\<close>

lemma double_of_literals:
  "double_of 0.1 = Finite (3602879701896397 / 36028797018963968)"
  "double_of 0.01 = Finite (5764607523034235 / 576460752303423488)"
  "double_of 0.02 = Finite (5764607523034235 / 288230376151711744)"
  "double_of 2.0 = Finite 2"
  "double_of 10 = Finite 10"
  "double_of 100 = Finite 100"
  "double_of 187 = Finite 187"
  "double_of 1.87 = Finite (2105432825795707 / 1125899906842624)"
  "double_of 10.01 = Finite (5635129033747333 / 562949953421312)"
  "double_of 10.04 = Finite (1413004383087493 / 140737488355328)"
  by (simp_all add: double_eval)

lemma stakes_values:
  "INITIAL_BALANCE = Finite (3602879701896397 / 36028797018963968)"
  "FLAT_BET = Finite (5764607523034235 / 576460752303423488)"
  "FIXED_BET = Finite (5764607523034235 / 288230376151711744)"
  by (simp_all add: INITIAL_BALANCE_def FLAT_BET_def FIXED_BET_def double_eval)

text \<open>
  The first stakes on the initial balance: \<^verbatim>\<open>0.1 + 0.01\<close> is \<^verbatim>\<open>0.11\<close> and \<^verbatim>\<open>0.1 - 0.02\<close> is
  \<^verbatim>\<open>0.08\<close>, but \<^verbatim>\<open>0.1 + 0.02\<close> is \<^verbatim>\<open>0.12000000000000001\<close> and \<^verbatim>\<open>0.1 - 0.01\<close> is
  \<^verbatim>\<open>0.09000000000000001\<close>.
\<close>

lemma balance_sums:
  "float_add INITIAL_BALANCE FLAT_BET = double_of 0.11"
  "float_add INITIAL_BALANCE (float_neg FLAT_BET) = double_of 0.09000000000000001"
  "float_add INITIAL_BALANCE FIXED_BET = double_of 0.12000000000000001"
  "float_add INITIAL_BALANCE (float_neg FIXED_BET) = double_of 0.08"
  "double_of 0.12000000000000001 \<noteq> double_of 0.12"
  "double_of 0.09000000000000001 \<noteq> double_of 0.09"
  by (simp_all add: stakes_values double_eval)

subsection \<open>Normaliser\<close>

text \<open>
  C4: the normaliser returns \<^verbatim>\<open>value / 100\<close>, the double nearest to the hundredth of the
  value, exactly for the values above 10, and leaves every other value (10 itself, zero,
  negative values, NaN) unchanged; 187 becomes 1.87, 1.87 and 10 stay, 10.01 becomes
  0.1001. The quotient is rounded: 10.04 becomes 0.10039999999999999, not 0.1004.
\<close>

theorem normalize_input_rule:
  "normalize_input v = (if float_gt v (Finite 10) then float_div v (Finite 100) else v)
   \<and> float_div (Finite x) (Finite 100) = double_of (x / 100)
   \<and> normalize_input (Finite 10) = Finite 10
   \<and> normalize_input (Finite 0) = Finite 0
   \<and> normalize_input (Finite (- \<bar>x\<bar>)) = Finite (- \<bar>x\<bar>)
   \<and> normalize_input NaN = NaN
   \<and> normalize_input (double_of 187) = double_of 1.87
   \<and> normalize_input (double_of 1.87) = double_of 1.87
   \<and> normalize_input (double_of 10) = double_of 10
   \<and> normalize_input (double_of 10.01) = double_of 0.1001
   \<and> normalize_input (double_of 10.04) = double_of 0.10039999999999999
   \<and> normalize_input (double_of 10.04) \<noteq> double_of 0.1004"
proof -
  have general: "normalize_input v =
      (if float_gt v (Finite 10) then float_div v (Finite 100) else v)"
    by (simp add: normalize_input_def)
  have quotient: "float_div (Finite x) (Finite 100) = double_of (x / 100)"
    by simp
  have unchanged: "normalize_input (Finite 10) = Finite 10"
    "normalize_input (Finite 0) = Finite 0"
    "normalize_input (Finite (- \<bar>x\<bar>)) = Finite (- \<bar>x\<bar>)"
    "normalize_input NaN = NaN"
    by (auto simp: normalize_input_def float_gt_def)
  have e187: "normalize_input (double_of 187) = double_of 1.87"
    by (simp add: normalize_input_def float_gt_def double_eval)
  have e1_87: "normalize_input (double_of 1.87) = double_of 1.87"
    by (simp add: normalize_input_def float_gt_def double_eval)
  have e10: "normalize_input (double_of 10) = double_of 10"
    by (simp add: normalize_input_def float_gt_def double_eval)
  have e10_01: "normalize_input (double_of 10.01) = double_of 0.1001"
    by (simp add: normalize_input_def float_gt_def double_eval)
  have e10_04: "normalize_input (double_of 10.04) = double_of 0.10039999999999999"
    by (simp add: normalize_input_def float_gt_def double_eval)
  have n10_04: "normalize_input (double_of 10.04) \<noteq> double_of 0.1004"
    by (simp add: normalize_input_def float_gt_def double_eval)
  from general quotient unchanged e187 e1_87 e10 e10_01 e10_04 n10_04
  show ?thesis by blast
qed

subsection \<open>Predictor\<close>

lemma np_sum_lt_count: "np_sum_lt xs t = int (length (filter (\<lambda>x. float_lt x t) xs))"
  by (induction xs) (simp_all add: np_sum_lt_def)

lemma slice_last_append:
  "length recent = nat w \<Longrightarrow> 0 < w \<Longrightarrow> slice_last (older @ recent) w = recent"
  by (simp add: slice_last_def Let_def)

text \<open>
  C1: on a history of at least 20 entries, written as its last 20 entries \<open>recent\<close> after
  the \<open>older\<close> ones, the predictor counts the entries of \<open>recent\<close> strictly below 2.0 and
  returns "Above" with that count when the count reaches \<open>min_unders_for_above\<close>, and
  "Under" with that count otherwise. The older entries play no part.
\<close>

theorem predict_from_unders_window:
  assumes "length recent = 20"
  shows "predict_from_unders (older @ recent) (Finite 2) WINDOW m =
           (let underCount = int (length (filter (\<lambda>x. float_lt x (Finite 2)) recent))
            in if underCount \<ge> m then (Some ''Above'', Some underCount)
               else (Some ''Under'', Some underCount))"
proof -
  have "slice_last (older @ recent) WINDOW = recent"
    using assms by (simp add: slice_last_append WINDOW_def)
  moreover have "\<not> int (length (older @ recent)) < WINDOW"
    using assms by (simp add: WINDOW_def)
  ultimately show ?thesis
    by (simp add: predict_from_unders_def np_sum_lt_count Let_def)
qed

text \<open>
  Twenty values of which 14 are below 2.0 (2.0 itself is not) give ("Above", 14) at
  \<open>min_unders_for_above = 14\<close>; with 13 such values, after two older entries, the result
  is ("Under", 13).
\<close>

theorem predict_from_unders_window_witness:
  "predict_from_unders
     ([] @ map Finite
            [1.125, 1.25, 1.9375, 1.0, 1.5, 1.0625, 1.75, 1.375, 1.625, 1.5,
             1.125, 1.75, 1.0, 1.875, 2.0, 2.125, 3.5, 7.25, 12.5, 2.25])
     (Finite 2) WINDOW 14 = (Some ''Above'', Some 14)
   \<and> predict_from_unders
     ([Finite 0.5, NaN] @ map Finite
            [1.125, 1.25, 1.9375, 1.0, 1.5, 1.0625, 1.75, 1.375, 1.625, 1.5,
             1.125, 1.75, 1.0, 4.875, 2.0, 2.125, 3.5, 7.25, 12.5, 2.25])
     (Finite 2) WINDOW 14 = (Some ''Under'', Some 13)"
  using
    predict_from_unders_window
      [of "map Finite
            [1.125, 1.25, 1.9375, 1.0, 1.5, 1.0625, 1.75, 1.375, 1.625, 1.5,
             1.125, 1.75, 1.0, 1.875, 2.0, 2.125, 3.5, 7.25, 12.5, 2.25]" "[]" 14]
    predict_from_unders_window
      [of "map Finite
            [1.125, 1.25, 1.9375, 1.0, 1.5, 1.0625, 1.75, 1.375, 1.625, 1.5,
             1.125, 1.75, 1.0, 4.875, 2.0, 2.125, 3.5, 7.25, 12.5, 2.25]" "[Finite 0.5, NaN]" 14]
  by simp

text \<open>
  C6: on a history of fewer than 20 entries the predictor returns the pair
  \<open>(None, None)\<close>, whatever the entries, the threshold and \<open>min_unders_for_above\<close> are.
  The function returns a pair on every input: it has no error result.
\<close>

theorem predict_from_unders_insufficient:
  assumes "length data < 20"
  shows "predict_from_unders data threshold WINDOW m = (None, None)"
  using assms by (simp add: predict_from_unders_def WINDOW_def)

theorem predict_from_unders_insufficient_witness:
  "length [Finite 1.5, Finite 0.25, Finite 250, Finite (- 4), NaN] < 20
   \<and> predict_from_unders [Finite 1.5, Finite 0.25, Finite 250, Finite (- 4), NaN]
        (Finite 2) WINDOW 14 = (None, None)
   \<and> predict_from_unders [] (Finite 2) WINDOW 10 = (None, None)"
  using predict_from_unders_insufficient
      [of "[Finite 1.5, Finite 0.25, Finite 250, Finite (- 4), NaN]" "Finite 2" 14]
    predict_from_unders_insufficient [of "[]" "Finite 2" 10]
  by simp

subsection \<open>Settlement\<close>

text \<open>
  C2: settling prediction \<open>p\<close> against \<open>a\<close> appends one row to the ledger, whose flag is
  (\<open>p\<close> is "Above" and \<open>a > 2.0\<close>) or (\<open>p\<close> is "Under" and \<open>a \<le> 2.0\<close>). At \<open>a = 2.0\<close> an
  "Under" is correct and an "Above" is not. (Against NaN, which the text field accepts,
  both comparisons are false and the flag is false for either label.)
\<close>

theorem save_result_correct_flag:
  "load_results (save_result p a fs) =
     load_results fs @
       [\<lparr>prediction = p, actual = a,
         correct = ((p = ''Above'' \<and> float_gt a (Finite 2))
                    \<or> (p = ''Under'' \<and> float_le a (Finite 2)))\<rparr>]
   \<and> correct (last (load_results (save_result ''Under'' (Finite 2) fs))) = True
   \<and> correct (last (load_results (save_result ''Above'' (Finite 2) fs))) = False
   \<and> correct (last (load_results (save_result p NaN fs))) = False"
  by (auto simp: save_result_def load_results_def update_flat_balance_def
      update_fixed_balance_def Let_def float_gt_def)

text \<open>
  C3: settling an "Above" adds the stake to the balance when \<open>a > 2.0\<close> and its negation
  otherwise, with the stake 0.01 for the flat balance and 0.02 for the fixed one, in the
  program's double arithmetic; settling an "Under" leaves both balance files as they are.
  From the initial balance 0.1 a win gives 0.11 and 0.12000000000000001, a loss (here at
  the threshold itself) 0.09000000000000001 and 0.08.
\<close>

theorem save_result_balances:
  "get_flat_balance (save_result ''Above'' a fs) =
     float_add (get_flat_balance fs)
       (if float_gt a (Finite 2) then double_of 0.01 else float_neg (double_of 0.01))
   \<and> get_fixed_balance (save_result ''Above'' a fs) =
     float_add (get_fixed_balance fs)
       (if float_gt a (Finite 2) then double_of 0.02 else float_neg (double_of 0.02))
   \<and> FLAT_FILE (save_result ''Under'' a fs) = FLAT_FILE fs
   \<and> FIXED_FILE (save_result ''Under'' a fs) = FIXED_FILE fs
   \<and> get_flat_balance (save_result ''Under'' a fs) = get_flat_balance fs
   \<and> get_fixed_balance (save_result ''Under'' a fs) = get_fixed_balance fs
   \<and> get_flat_balance (save_result ''Above'' (Finite 2.5) (snd initial_state)) = double_of 0.11
   \<and> get_fixed_balance (save_result ''Above'' (Finite 2.5) (snd initial_state)) =
       double_of 0.12000000000000001
   \<and> get_flat_balance (save_result ''Above'' (Finite 2) (snd initial_state)) =
       double_of 0.09000000000000001
   \<and> get_fixed_balance (save_result ''Above'' (Finite 2) (snd initial_state)) = double_of 0.08"
proof -
  have general:
    "get_flat_balance (save_result ''Above'' a fs) =
       float_add (get_flat_balance fs)
         (if float_gt a (Finite 2) then double_of 0.01 else float_neg (double_of 0.01))"
    "get_fixed_balance (save_result ''Above'' a fs) =
       float_add (get_fixed_balance fs)
         (if float_gt a (Finite 2) then double_of 0.02 else float_neg (double_of 0.02))"
    "FLAT_FILE (save_result ''Under'' a fs) = FLAT_FILE fs"
    "FIXED_FILE (save_result ''Under'' a fs) = FIXED_FILE fs"
    "get_flat_balance (save_result ''Under'' a fs) = get_flat_balance fs"
    "get_fixed_balance (save_result ''Under'' a fs) = get_fixed_balance fs"
    by (simp_all add: save_result_def load_results_def update_flat_balance_def
        update_fixed_balance_def get_flat_balance_def get_fixed_balance_def Let_def
        FLAT_BET_def FIXED_BET_def)
  have concrete:
    "get_flat_balance (save_result ''Above'' (Finite 2.5) (snd initial_state)) = double_of 0.11"
    "get_fixed_balance (save_result ''Above'' (Finite 2.5) (snd initial_state)) =
       double_of 0.12000000000000001"
    "get_flat_balance (save_result ''Above'' (Finite 2) (snd initial_state)) =
       double_of 0.09000000000000001"
    "get_fixed_balance (save_result ''Above'' (Finite 2) (snd initial_state)) = double_of 0.08"
    by (simp_all add: save_result_def load_results_def update_flat_balance_def
        update_fixed_balance_def get_flat_balance_def get_fixed_balance_def Let_def
        initial_state_def float_gt_def balance_sums)
  from general concrete show ?thesis by blast
qed

subsection \<open>Reset and missing files\<close>

text \<open>
  C7: after the reset button's handler both balances read 0.1, the history (in the
  session and on disk) reads empty and the ledger reads empty: no file is left. The same
  holds after \<^verbatim>\<open>reset_balance\<close> alone for the balances and the ledger, and after a whole run
  of the page with the reset button pressed. A file that does not exist reads as the
  default: 0.1 for a balance, the empty list for the history and for the ledger.
\<close>

theorem reset_all_defaults:
  "get_flat_balance (snd (reset_all st)) = double_of 0.1
   \<and> get_fixed_balance (snd (reset_all st)) = double_of 0.1
   \<and> history (fst (reset_all st)) = Some []
   \<and> load_history (snd (reset_all st)) = []
   \<and> load_results (snd (reset_all st)) = []
   \<and> snd (reset_all st) =
       \<lparr>HISTORY_FILE = None, RESULTS_FILE = None, FLAT_FILE = None, FIXED_FILE = None\<rparr>
   \<and> get_flat_balance (reset_balance fs) = double_of 0.1
   \<and> get_fixed_balance (reset_balance fs) = double_of 0.1
   \<and> load_results (reset_balance fs) = []
   \<and> (case main reset_input st of
         Inl e \<Rightarrow> False
       | Inr st' \<Rightarrow>
           history (fst st') = Some [] \<and> load_history (snd st') = []
           \<and> load_results (snd st') = []
           \<and> get_flat_balance (snd st') = double_of 0.1
           \<and> get_fixed_balance (snd st') = double_of 0.1)
   \<and> get_flat_balance (fs\<lparr>FLAT_FILE := None\<rparr>) = INITIAL_BALANCE
   \<and> get_fixed_balance (fs\<lparr>FIXED_FILE := None\<rparr>) = INITIAL_BALANCE
   \<and> load_history (fs\<lparr>HISTORY_FILE := None\<rparr>) = []
   \<and> load_results (fs\<lparr>RESULTS_FILE := None\<rparr>) = []"
  by (cases st)
    (auto simp: reset_all_def reset_balance_def save_history_def get_flat_balance_def
      get_fixed_balance_def load_history_def load_results_def INITIAL_BALANCE_def
      main_def reset_input_def init_history_def show_prediction_def split: option.splits)

subsection \<open>Accuracy\<close>

lemma correct_sum_count: "correct_sum rs = int (length (filter correct rs))"
  by (induction rs) (simp_all add: correct_sum_def)

text \<open>
  C8: the accuracy computation returns the number of rows, the number of rows whose flag
  is true, and their quotient, the rate being 0 on the empty ledger; it never ends in
  \<open>ZeroDivisionError\<close>. The page runs it on the whole ledger whenever the ledger has a
  row, and shows no metric for the empty ledger.
\<close>

theorem accuracy_totals:
  "accuracy rs =
     Inr (int (length rs), int (length (filter correct rs)),
          if length rs = 0 then 0 else real (length (filter correct rs)) / real (length rs))
   \<and> accuracy [] = Inr (0, 0, 0)
   \<and> accuracy rs \<noteq> Inl ZeroDivisionError
   \<and> accuracy_tracker fs =
       (if load_results fs = [] then None else Some (accuracy (load_results fs)))"
  by (simp add: accuracy_def accuracy_tracker_def correct_sum_count py_truediv_def Let_def)

subsection \<open>An observation with no pending prediction\<close>

lemma show_prediction_history: "history (show_prediction m s) = history s"
  by (simp add: show_prediction_def split: option.splits)

text \<open>
  C9: when the session holds no prediction, adding the value \<open>v\<close> appends its normalised
  form to the history, in the session and on disk, and leaves the ledger file and both
  balance files as they were; so does the whole run of the page for that button.
\<close>

theorem add_multiplier_no_pending:
  assumes "last_prediction s = None" and "history s = Some h"
  shows "add_multiplier (Some v) (s, fs) =
           (s\<lparr>history := Some (h @ [normalize_input v])\<rparr>,
            fs\<lparr>HISTORY_FILE := Some (h @ [normalize_input v])\<rparr>)
    \<and> RESULTS_FILE (snd (add_multiplier (Some v) (s, fs))) = RESULTS_FILE fs
    \<and> FLAT_FILE (snd (add_multiplier (Some v) (s, fs))) = FLAT_FILE fs
    \<and> FIXED_FILE (snd (add_multiplier (Some v) (s, fs))) = FIXED_FILE fs
    \<and> main (add_input v) (s, fs) =
           Inr (show_prediction MIN_UNDERS_FOR_ABOVE
                  (s\<lparr>history := Some (h @ [normalize_input v])\<rparr>),
                fs\<lparr>HISTORY_FILE := Some (h @ [normalize_input v])\<rparr>)"
  using assms
  by (simp add: add_multiplier_def save_history_def Let_def main_def add_input_def
      init_history_def)

theorem add_multiplier_no_pending_witness:
  "add_multiplier (Some (Finite 187))
     (\<lparr>history = Some [Finite 1.5, Finite 2.5], last_prediction = None\<rparr>,
      \<lparr>HISTORY_FILE = Some [Finite 1.5, Finite 2.5],
       RESULTS_FILE = Some [\<lparr>prediction = ''Above'', actual = Finite 2.5, correct = True\<rparr>],
       FLAT_FILE = Some (double_of 0.11), FIXED_FILE = Some (double_of 0.12000000000000001)\<rparr>) =
     (\<lparr>history = Some [Finite 1.5, Finite 2.5, double_of 1.87], last_prediction = None\<rparr>,
      \<lparr>HISTORY_FILE = Some [Finite 1.5, Finite 2.5, double_of 1.87],
       RESULTS_FILE = Some [\<lparr>prediction = ''Above'', actual = Finite 2.5, correct = True\<rparr>],
       FLAT_FILE = Some (double_of 0.11), FIXED_FILE = Some (double_of 0.12000000000000001)\<rparr>)"
  using add_multiplier_no_pending
    [of "\<lparr>history = Some [Finite 1.5, Finite 2.5], last_prediction = None\<rparr>"
        "[Finite 1.5, Finite 2.5]" "Finite 187"
        "\<lparr>HISTORY_FILE = Some [Finite 1.5, Finite 2.5],
          RESULTS_FILE = Some [\<lparr>prediction = ''Above'', actual = Finite 2.5, correct = True\<rparr>],
          FLAT_FILE = Some (double_of 0.11), FIXED_FILE = Some (double_of 0.12000000000000001)\<rparr>"]
  by (simp add: normalize_input_def float_gt_def)

subsection \<open>History persistence\<close>


subsection \<open>The pending prediction across runs\<close>

lemma predict_some_length:
  "fst (predict_from_unders data t WINDOW m) = Some p \<Longrightarrow> 20 \<le> length data"
  by (auto simp: predict_from_unders_def WINDOW_def split: if_splits)

lemma show_prediction_pending_ok:
  "pending_ok s \<Longrightarrow> pending_ok (show_prediction m s)"
  by (auto simp: show_prediction_def pending_ok_def split: option.splits
      dest: predict_some_length)

lemma init_history_pending_ok:
  "pending_ok (fst st) \<Longrightarrow> pending_ok (fst (init_history st))"
  by (auto simp: init_history_def pending_ok_def split: option.splits)

lemma add_multiplier_pending_ok:
  "pending_ok (fst st) \<Longrightarrow> pending_ok (fst (add_multiplier nv st))"
  by (auto simp: add_multiplier_def pending_ok_def Let_def split: option.splits)

text \<open>
  A run in which the history is not replaced (no upload, no reset) keeps the session
  consistent: values are only appended, so a stored prediction keeps its 20 entries.
\<close>

lemma main_pending_ok:
  assumes "uploaded inp = None" and "\<not> reset_clicked inp"
    and "pending_ok (fst st)" and "main inp st = Inr st'"
  shows "pending_ok (fst st')"
  using assms
  by (auto simp: main_def Let_def
      intro!: show_prediction_pending_ok add_multiplier_pending_ok init_history_pending_ok)

text \<open>
  C5: the reset handler empties the history and leaves \<^verbatim>\<open>last_prediction\<close> in the session.
  After twenty values of 1.0 the session holds "Above"; after the reset the history is
  empty and the session still holds "Above", so it is not consistent; the next value,
  3.0, is settled against that prediction: a row is written to the ledger and the
  balances move to 0.11 and 0.12000000000000001.
\<close>

theorem reset_keeps_pending_prediction:
  "run (replicate 20 (add_input (Finite 1)) @ [reset_input]) initial_state =
     Inr (\<lparr>history = Some [], last_prediction = Some ''Above''\<rparr>,
          \<lparr>HISTORY_FILE = None, RESULTS_FILE = None, FLAT_FILE = None, FIXED_FILE = None\<rparr>)
   \<and> \<not> pending_ok \<lparr>history = Some [], last_prediction = Some ''Above''\<rparr>
   \<and> run (replicate 20 (add_input (Finite 1)) @ [reset_input, add_input (Finite 3)])
         initial_state =
     Inr (\<lparr>history = Some [Finite 3], last_prediction = None\<rparr>,
          \<lparr>HISTORY_FILE = Some [Finite 3],
           RESULTS_FILE =
             Some [\<lparr>prediction = ''Above'', actual = Finite 3, correct = True\<rparr>],
           FLAT_FILE = Some (double_of 0.11),
           FIXED_FILE = Some (double_of 0.12000000000000001)\<rparr>)"
  by (simp add: eval_nat_numeral main_def init_history_def add_multiplier_def
      show_prediction_def reset_all_def reset_balance_def save_history_def load_history_def
      save_result_def load_results_def update_flat_balance_def update_fixed_balance_def
      get_flat_balance_def get_fixed_balance_def normalize_input_def float_gt_def
      predict_from_unders_def slice_last_def np_sum_lt_def WINDOW_def
      MIN_UNDERS_FOR_ABOVE_def add_input_def reset_input_def initial_state_def
      pending_ok_def Let_def balance_sums)

end
